theory Spec2Isabelle
  imports Complex_Main
begin

section \<open>JavaScript values shared by the embedded functions\<close>

text \<open>
  The program is TypeScript. A typed optional string field is \<open>string option\<close> (\<open>None\<close> when
  it is absent); the falsy ones are \<open>None\<close> and the empty string. A thrown value is
  \<open>Error message\<close> on the left of a sum, \<open>message\<close> being the text a \<open>catch\<close> block reads
  from it (\<open>error.message\<close> of an \<open>Error\<close>, \<open>String(error)\<close> of anything else). Strings
  are lists of characters with codes up to 255.
\<close>

datatype error = Error string

text \<open>\<open>!!v\<close> for an optional string.\<close>

definition truthy :: "string option \<Rightarrow> bool" where
  "truthy v = (case v of None \<Rightarrow> False | Some s \<Rightarrow> s \<noteq> [])"

text \<open>\<open>a || "literal"\<close>.\<close>

definition or_str :: "string option \<Rightarrow> string \<Rightarrow> string" where
  "or_str a d = (case a of None \<Rightarrow> d | Some s \<Rightarrow> if s = [] then d else s)"

text \<open>
  A value produced by \<open>JSON.parse\<close>. A number is kept as the text \<open>String\<close> prints for it
  (\<open>0\<close> for both zeros); the members of an object have distinct keys. A JavaScript value
  that may be \<open>undefined\<close> is a \<open>json option\<close>, with \<open>None\<close> for \<open>undefined\<close>.
\<close>

datatype json =
    JNull
  | JBool bool
  | JNum string
  | JStr string
  | JArr "json list"
  | JObj "(string \<times> json) list"

type_synonym jsval = "json option"

text \<open>\<open>!!v\<close>.\<close>

fun js_truthy :: "jsval \<Rightarrow> bool" where
  "js_truthy None = False"
| "js_truthy (Some JNull) = False"
| "js_truthy (Some (JBool b)) = b"
| "js_truthy (Some (JNum t)) = (t \<noteq> ''0'')"
| "js_truthy (Some (JStr s)) = (s \<noteq> [])"
| "js_truthy (Some (JArr xs)) = True"
| "js_truthy (Some (JObj ms)) = True"

text \<open>\<open>a || b\<close>: the first operand when truthy, the second otherwise.\<close>

definition js_or :: "jsval \<Rightarrow> jsval \<Rightarrow> jsval" where
  "js_or a b = (if js_truthy a then a else b)"

text \<open>
  \<open>v.key\<close> on a value that is neither \<open>null\<close> nor \<open>undefined\<close>, for a key that no
  prototype defines: the member of an object, \<open>undefined\<close> on anything else.
\<close>

fun field :: "json \<Rightarrow> string \<Rightarrow> jsval" where
  "field (JObj ms) key = map_of ms key"
| "field v key = None"

text \<open>\<open>v?.key\<close>.\<close>

definition opt_field :: "jsval \<Rightarrow> string \<Rightarrow> jsval" where
  "opt_field v key = (case v of None \<Rightarrow> None | Some JNull \<Rightarrow> None | Some x \<Rightarrow> field x key)"

text \<open>\<open>xs.join(",")\<close> on strings.\<close>

fun join_comma :: "string list \<Rightarrow> string" where
  "join_comma [] = []"
| "join_comma [x] = x"
| "join_comma (x # y # ys) = x @ '','' @ join_comma (y # ys)"

text \<open>
  \<open>String(v)\<close>. An object prints through \<open>Object.prototype.toString\<close> unless it has a
  member \<open>toString\<close> of its own, which is not callable: then the conversion throws a
  \<open>TypeError\<close>. An array prints its entries joined by commas, \<open>null\<close> as the empty
  string. \<open>stringable\<close> tells whether the conversion returns, \<open>js_string\<close> what it
  returns then.
\<close>

fun stringable :: "json \<Rightarrow> bool" where
  "stringable (JArr xs) = list_all stringable xs"
| "stringable (JObj ms) = (''toString'' \<notin> fst ` set ms)"
| "stringable v = True"

fun js_string :: "json \<Rightarrow> string" where
  "js_string JNull = ''null''"
| "js_string (JBool b) = (if b then ''true'' else ''false'')"
| "js_string (JNum t) = t"
| "js_string (JStr s) = s"
| "js_string (JArr xs) = join_comma (map (\<lambda>x. if x = JNull then [] else js_string x) xs)"
| "js_string (JObj ms) = ''[object Object]''"

definition to_string :: "json \<Rightarrow> error + string" where
  "to_string v =
     (if stringable v then Inr (js_string v)
      else Inl (Error ''Cannot convert object to primitive value''))"

text \<open>Whether \<open>${v || ''}\<close>, or \<open>${v}\<close> for a \<open>v\<close> that is falsy, can be printed.\<close>

definition printable :: "jsval \<Rightarrow> bool" where
  "printable v = (js_truthy v \<longrightarrow> stringable (the v))"

text \<open>A value inside a template literal: \<open>undefined\<close> prints as the word.\<close>

definition template :: "jsval \<Rightarrow> string" where
  "template v = (case v of None \<Rightarrow> ''undefined'' | Some x \<Rightarrow> js_string x)"

text \<open>
  \<open>String.prototype.trim\<close>: the white space and line terminator characters with codes
  up to 255.
\<close>

definition is_ws :: "char \<Rightarrow> bool" where
  "is_ws c = (c \<in> set [CHR '' '', CHR 0x09, CHR 0x0A, CHR 0x0B, CHR 0x0C, CHR 0x0D, CHR 0xA0])"

definition trim :: "string \<Rightarrow> string" where
  "trim s = rev (dropWhile is_ws (rev (dropWhile is_ws s)))"

text \<open>
  The integer a finite number is converted to when it is used as an index: the fraction
  is dropped.
\<close>

definition to_integer :: "real \<Rightarrow> int" where
  "to_integer x = (if 0 \<le> x then \<lfloor>x\<rfloor> else \<lceil>x\<rceil>)"

text \<open>\<open>xs.slice(0, n)\<close>: a negative end counts from the end of the array.\<close>

definition slice0 :: "real \<Rightarrow> 'a list \<Rightarrow> 'a list" where
  "slice0 n xs =
     (let k = to_integer n
      in if k < 0 then take (nat (int (length xs) + k)) xs else take (nat k) xs)"

text \<open>\<open>xs.map(f)\<close> for a callback that may throw: the first throw ends the map.\<close>

fun map_throwing :: "('a \<Rightarrow> error + 'b) \<Rightarrow> 'a list \<Rightarrow> error + 'b list" where
  "map_throwing f [] = Inr []"
| "map_throwing f (x # xs) =
     (case f x of
        Inl e \<Rightarrow> Inl e
      | Inr y \<Rightarrow> (case map_throwing f xs of Inl e \<Rightarrow> Inl e | Inr ys \<Rightarrow> Inr (y # ys)))"


section \<open>tools/hunter.ts: the \<open>people_lookup\<close> tool\<close>

text \<open>\<open>getHunterKey\<close>: the environment variable \<open>HUNTER_API_KEY\<close>, or a throw.\<close>

definition getHunterKey :: "string option \<Rightarrow> error + string" where
  "getHunterKey apiKey =
     (if \<not> truthy apiKey then Inl (Error ''HUNTER_API_KEY environment variable not set'')
      else Inr (the apiKey))"

text \<open>
  What \<open>fetch\<close> gives back. \<open>resp_status\<close> is the status code as the error message
  prints it (in decimal); \<open>resp_error\<close> is the text \<open>parseHunterError\<close> extracts from a
  response that is not ok; \<open>resp_json\<close> is the outcome of \<open>response.json()\<close>: a throw on a
  body that is not JSON, otherwise the parsed value, whatever its shape.
\<close>

record response =
  resp_ok :: bool
  resp_status :: string
  resp_error :: string
  resp_json :: "error + json"

record request_params =
  rp_domain :: "string option"
  rp_company :: "string option"
  rp_limit :: real
  rp_department :: string

text \<open>The backend: the HTTP service behind \<open>fetch\<close>, which may itself throw.\<close>

type_synonym backend = "string \<Rightarrow> string \<Rightarrow> request_params \<Rightarrow> error + response"

text \<open>
  \<open>hunterGet\<close>: the header value \<open>getHunterKey()\<close> is evaluated before \<open>fetch\<close> is
  called, so a missing key throws without a request.
\<close>

definition hunterGet :: "string option \<Rightarrow> backend \<Rightarrow> string \<Rightarrow> request_params \<Rightarrow> error + response" where
  "hunterGet apiKey fetch path params =
     (case getHunterKey apiKey of
        Inl e \<Rightarrow> Inl e
      | Inr key \<Rightarrow> fetch key path params)"

text \<open>
  One returned contact. \<open>title\<close> and \<open>email\<close> are passed on as the backend gave them, so
  they are JavaScript values; \<open>name\<close> is built with a template literal and is a string.
\<close>

record person =
  person_name :: string
  person_title :: json
  person_email :: jsval

text \<open>\<open>${v || ''}\<close> inside a template literal.\<close>

definition or_empty :: "jsval \<Rightarrow> string" where
  "or_empty v = (if js_truthy v then js_string (the v) else [])"

text \<open>
  The callback of \<open>emails.slice(0, limit).map\<close>: the object it builds from an entry,
  and the call itself. Reading \<open>first_name\<close> from a \<open>null\<close> entry throws a \<open>TypeError\<close>,
  and so does the template literal of the name on a part that cannot be printed.
\<close>

definition person_of :: "json \<Rightarrow> person" where
  "person_of email =
     \<lparr> person_name = trim (or_empty (field email ''first_name'') @ '' '' @
                           or_empty (field email ''last_name'')),
       person_title = (if js_truthy (field email ''position'')
                       then the (field email ''position'') else JStr ''Unknown''),
       person_email = field email ''value'' \<rparr>"

definition entry_ok :: "json \<Rightarrow> bool" where
  "entry_ok email =
     (email \<noteq> JNull \<and> printable (field email ''first_name'') \<and> printable (field email ''last_name''))"

definition toPerson :: "json \<Rightarrow> error + person" where
  "toPerson email =
     (if email = JNull
      then Inl (Error ''Cannot read properties of null (reading 'first_name')'')
      else if \<not> (printable (field email ''first_name'') \<and> printable (field email ''last_name''))
      then Inl (Error ''Cannot convert object to primitive value'')
      else Inr (person_of email))"

text \<open>The object the tool serialises with \<open>JSON.stringify\<close>; an absent member is \<open>None\<close>.\<close>

record lookup_result =
  lr_success :: bool
  lr_error :: "string option"
  lr_message :: "string option"
  lr_company :: jsval
  lr_domain :: jsval
  lr_people :: "person list"
  lr_total :: nat

definition no_contacts_message :: "jsval \<Rightarrow> string" where
  "no_contacts_message who =
     ''Hunter.io returned 0 contacts for '' @ template who @
     ''. This company has no public email data available in Hunter's database. You MUST skip this company, save a failure report, and move on. DO NOT make up or invent any contact information.''"

text \<open>
  \<open>const limit = Math.min(Math.max(contactsLimit, 1), 100)\<close>, \<open>contactsLimit\<close> defaulting
  to 10. A configured value is a finite JavaScript number, not necessarily an integer, and
  is modelled by the real number it denotes; \<open>Math.min\<close> and \<open>Math.max\<close> return one of
  their arguments, so no rounding is involved.
\<close>

definition hunter_limit :: "real option \<Rightarrow> real" where
  "hunter_limit contactsLimit =
     (let n = (case contactsLimit of None \<Rightarrow> 10 | Some n \<Rightarrow> n) in min (max n 1) 100)"

definition requestParams :: "real \<Rightarrow> string option \<Rightarrow> string option \<Rightarrow> request_params" where
  "requestParams limit domain company =
     \<lparr> rp_domain = domain, rp_company = company, rp_limit = limit, rp_department = ''it'' \<rparr>"

text \<open>\<open>data?.data?.emails ?? []\<close>, \<open>data?.data?.organization\<close> and \<open>data?.data?.domain\<close>.\<close>

definition emails_of :: "json \<Rightarrow> json" where
  "emails_of data =
     (case opt_field (opt_field (Some data) ''data'') ''emails'' of
        None \<Rightarrow> JArr []
      | Some JNull \<Rightarrow> JArr []
      | Some v \<Rightarrow> v)"

definition organization_of :: "json \<Rightarrow> jsval" where
  "organization_of data = opt_field (opt_field (Some data) ''data'') ''organization''"

definition domain_of :: "json \<Rightarrow> jsval" where
  "domain_of data = opt_field (opt_field (Some data) ''data'') ''domain''"

text \<open>
  \<open>emails.slice(0, limit).map(...)\<close>: on an array, the first entries mapped one by one; a
  string has \<open>slice\<close> but its result has no \<open>map\<close>, and any other value has no \<open>slice\<close>.
\<close>

definition people_of :: "real \<Rightarrow> json \<Rightarrow> error + person list" where
  "people_of limit es =
     (case es of
        JArr xs \<Rightarrow> map_throwing toPerson (slice0 limit xs)
      | JStr s \<Rightarrow> Inl (Error ''emails.slice(...).map is not a function'')
      | _ \<Rightarrow> Inl (Error ''emails.slice is not a function''))"

text \<open>
  The body of the tool, with the \<open>limit\<close> it closes over as first argument; \<open>domain\<close> and
  \<open>company\<close> have passed the schema.
\<close>

definition people_lookup_handler ::
  "real \<Rightarrow> string option \<Rightarrow> backend \<Rightarrow> string option \<Rightarrow> string option \<Rightarrow> error + lookup_result" where
  "people_lookup_handler limit apiKey fetch domain company =
     (if \<not> truthy domain \<and> \<not> truthy company
      then Inl (Error ''people_lookup requires either domain or company'')
      else
        (case hunterGet apiKey fetch ''domain-search'' (requestParams limit domain company) of
           Inl e \<Rightarrow> Inl e
         | Inr resp \<Rightarrow>
             if \<not> resp_ok resp
             then Inl (Error (''Hunter domain search failed ('' @ resp_status resp @ ''): '' @ resp_error resp))
             else
               (case resp_json resp of
                  Inl e \<Rightarrow> Inl e
                | Inr data \<Rightarrow>
                    let es = emails_of data;
                        org = organization_of data;
                        ddom = domain_of data;
                        dom_v = map_option JStr domain;
                        com_v = map_option JStr company
                    in
                      (case people_of limit es of
                         Inl e \<Rightarrow> Inl e
                       | Inr people \<Rightarrow>
                           if length people = 0
                           then
                             if \<not> printable (js_or (js_or org dom_v) com_v)
                             then Inl (Error ''Cannot convert object to primitive value'')
                             else
                                 Inr \<lparr> lr_success = False,
                                      lr_error = Some ''NO_CONTACTS_FOUND'',
                                      lr_message = Some (no_contacts_message (js_or (js_or org dom_v) com_v)),
                                      lr_company = js_or (js_or org com_v) (Some (JStr ''Unknown'')),
                                      lr_domain = js_or (js_or dom_v ddom) (Some (JStr ''Unknown'')),
                                      lr_people = [],
                                      lr_total = 0 \<rparr>
                           else Inr \<lparr> lr_success = True,
                                      lr_error = None,
                                      lr_message = None,
                                      lr_company = org,
                                      lr_domain = js_or dom_v ddom,
                                      lr_people = people,
                                      lr_total = length people \<rparr>))))"

text \<open>
  The schema of the tool, \<open>z.string().optional()\<close> for \<open>domain\<close> and for \<open>company\<close>: an
  argument is absent or a string; anything else, \<open>null\<close> included, is refused with a throw
  before the body runs.
\<close>

definition parse_arg :: "jsval \<Rightarrow> error + string option" where
  "parse_arg v =
     (case v of
        None \<Rightarrow> Inr None
      | Some (JStr s) \<Rightarrow> Inr (Some s)
      | Some other \<Rightarrow> Inl (Error ''Received tool input did not match expected schema''))"

text \<open>An invocation of the tool with the arguments as the caller wrote them.\<close>

definition people_lookup ::
  "real \<Rightarrow> string option \<Rightarrow> backend \<Rightarrow> jsval \<Rightarrow> jsval \<Rightarrow> error + lookup_result" where
  "people_lookup limit apiKey fetch domainArg companyArg =
     (case parse_arg domainArg of
        Inl e \<Rightarrow> Inl e
      | Inr domain \<Rightarrow>
          (case parse_arg companyArg of
             Inl e \<Rightarrow> Inl e
           | Inr company \<Rightarrow> people_lookup_handler limit apiKey fetch domain company))"

definition createHunterDomainSearchTool ::
  "real option \<Rightarrow> string option \<Rightarrow> backend \<Rightarrow> jsval \<Rightarrow> jsval \<Rightarrow> error + lookup_result" where
  "createHunterDomainSearchTool contactsLimit = people_lookup (hunter_limit contactsLimit)"

text \<open>
  tools/index.ts, \<open>buildTools\<close>: \<open>const { contactsPerCompany = 10 } = config\<close>, handed to
  \<open>createHunterDomainSearchTool\<close>. Only the \<open>people_lookup\<close> entry of the tool list is
  modelled.
\<close>

definition buildTools ::
  "real option \<Rightarrow> string option \<Rightarrow> backend \<Rightarrow> jsval \<Rightarrow> jsval \<Rightarrow> error + lookup_result" where
  "buildTools contactsPerCompany =
     createHunterDomainSearchTool (Some (case contactsPerCompany of None \<Rightarrow> 10 | Some n \<Rightarrow> n))"





text \<open>Sample backends and addresses.\<close>

definition hunter_body :: "json list \<Rightarrow> json" where
  "hunter_body es =
     JObj [(''data'', JObj [(''emails'', JArr es), (''organization'', JStr ''Acme''),
                          (''domain'', JStr ''acme.com'')])]"

text \<open>A backend that answers every request with a fixed list of addresses.\<close>

definition fixed_backend :: "json list \<Rightarrow> backend" where
  "fixed_backend es key path params =
     Inr \<lparr> resp_ok = True, resp_status = ''200'', resp_error = [], resp_json = Inr (hunter_body es) \<rparr>"

text \<open>A backend that answers only a request with the given \<open>limit\<close>.\<close>

definition limit_backend :: "real \<Rightarrow> json list \<Rightarrow> backend" where
  "limit_backend l es key path params =
     (if rp_limit params = l
      then Inr \<lparr> resp_ok = True, resp_status = ''200'', resp_error = [], resp_json = Inr (hunter_body es) \<rparr>
      else Inl (Error ''unexpected limit''))"

definition sample_email :: "string \<Rightarrow> json" where
  "sample_email a = JObj [(''first_name'', JStr ''Ada''), (''last_name'', JNull), (''value'', JStr a)]"


section \<open>services/gmail: \<open>sendEmails\<close>\<close>

record email_message =
  msg_to :: string
  msg_toName :: "string option"
  msg_subject :: string
  msg_textBody :: string
  msg_customId :: "string option"
  msg_attachments :: "(string \<times> string) list option"

record email_result =
  res_success :: bool
  res_messageId :: "string option"
  res_email :: string
  res_error :: "string option"

text \<open>\<open>getGmailConfig\<close>: \<open>GMAIL_USER\<close> and \<open>GMAIL_APP_PASSWORD\<close> from the environment.\<close>

definition getGmailConfig :: "string option \<Rightarrow> string option \<Rightarrow> error + string \<times> string" where
  "getGmailConfig user pass =
     (if \<not> truthy user \<or> \<not> truthy pass
      then Inl (Error ''Missing Gmail credentials: GMAIL_USER and GMAIL_APP_PASSWORD required'')
      else Inr (the user, the pass))"

text \<open>The object handed to \<open>transporter.sendMail\<close>.\<close>

record mail =
  mail_from :: string
  mail_to :: string
  mail_subject :: string
  mail_text :: string
  mail_attachments :: "(string \<times> string) list option"

definition mail_of :: "string \<Rightarrow> email_message \<Rightarrow> mail" where
  "mail_of user msg =
     \<lparr> mail_from = user,
       mail_to = (if truthy (msg_toName msg)
                  then [CHR 0x22] @ the (msg_toName msg) @ [CHR 0x22] @ '' <'' @ msg_to msg @ ''>''
                  else msg_to msg),
       mail_subject = msg_subject msg,
       mail_text = msg_textBody msg,
       mail_attachments = msg_attachments msg \<rparr>"

text \<open>
  \<open>transporter.sendMail\<close> either resolves with \<open>info\<close>, of which \<open>info.messageId\<close> is read,
  or throws; \<open>Refused\<close> carries the text the \<open>catch\<close> block computes from the thrown value.
  The transporter is an effectful service: it is a function of its own state, which every
  call advances.
\<close>

datatype send_outcome = Delivered string | Refused string

type_synonym 's transporter = "'s \<Rightarrow> mail \<Rightarrow> send_outcome \<times> 's"

text \<open>
  The optional callback \<open>onProgress(result, index, total)\<close>: \<open>None\<close> when it returns,
  \<open>Some text\<close> when it throws a value that the \<open>catch\<close> block prints as \<open>text\<close>.
\<close>

type_synonym progress = "(email_result \<Rightarrow> nat \<Rightarrow> nat \<Rightarrow> string option) option"

definition call_progress :: "progress \<Rightarrow> email_result \<Rightarrow> nat \<Rightarrow> nat \<Rightarrow> string option" where
  "call_progress onProgress result index total_count =
     (case onProgress of None \<Rightarrow> None | Some f \<Rightarrow> f result index total_count)"

definition success_result :: "email_message \<Rightarrow> string \<Rightarrow> email_result" where
  "success_result msg messageId =
     \<lparr> res_success = True, res_messageId = Some messageId, res_email = msg_to msg, res_error = None \<rparr>"

definition failure_result :: "email_message \<Rightarrow> string \<Rightarrow> email_result" where
  "failure_result msg errorMsg =
     \<lparr> res_success = False, res_messageId = None, res_email = msg_to msg, res_error = Some errorMsg \<rparr>"

text \<open>
  The \<open>for (const msg of messages)\<close> loop. The callback is called inside the \<open>try\<close>
  block after the success result is pushed, so a throw of the callback there lands in the
  \<open>catch\<close> block, which pushes a failure result for the same message and calls the callback
  again; a throw of the callback inside the \<open>catch\<close> block leaves the function.
\<close>

fun send_loop ::
  "string \<Rightarrow> 's transporter \<Rightarrow> progress \<Rightarrow> nat \<Rightarrow> email_message list \<Rightarrow> email_result list \<Rightarrow> 's
     \<Rightarrow> (error + email_result list) \<times> 's" where
  "send_loop user sendMail onProgress total_count [] results s = (Inr results, s)"
| "send_loop user sendMail onProgress total_count (msg # rest) results s =
     (case sendMail s (mail_of user msg) of
        (Delivered messageId, s') \<Rightarrow>
          (let result = success_result msg messageId;
               results1 = results @ [result]
           in case call_progress onProgress result (length results1 - 1) total_count of
                None \<Rightarrow> send_loop user sendMail onProgress total_count rest results1 s'
              | Some errorMsg \<Rightarrow>
                  (let result2 = failure_result msg errorMsg;
                       results2 = results1 @ [result2]
                   in case call_progress onProgress result2 (length results2 - 1) total_count of
                        None \<Rightarrow> send_loop user sendMail onProgress total_count rest results2 s'
                      | Some e \<Rightarrow> (Inl (Error e), s')))
      | (Refused errorMsg, s') \<Rightarrow>
          (let result = failure_result msg errorMsg;
               results1 = results @ [result]
           in case call_progress onProgress result (length results1 - 1) total_count of
                None \<Rightarrow> send_loop user sendMail onProgress total_count rest results1 s'
              | Some e \<Rightarrow> (Inl (Error e), s')))"

definition sendEmails ::
  "string option \<Rightarrow> string option \<Rightarrow> 's transporter \<Rightarrow> progress \<Rightarrow> email_message list \<Rightarrow> 's
     \<Rightarrow> (error + email_result list) \<times> 's" where
  "sendEmails user pass sendMail onProgress messages s =
     (if length messages = 0 then (Inr [], s)
      else case getGmailConfig user pass of
             Inl e \<Rightarrow> (Inl e, s)
           | Inr config \<Rightarrow> send_loop (fst config) sendMail onProgress (length messages) messages [] s)"

text \<open>
  Reference behaviour for comparison: the outcomes of sending a list of mails one after the
  other, each call starting in the state the previous one left, and the result that
  belongs to one message and its outcome.
\<close>

fun attempts :: "'s transporter \<Rightarrow> 's \<Rightarrow> mail list \<Rightarrow> send_outcome list \<times> 's" where
  "attempts sendMail s [] = ([], s)"
| "attempts sendMail s (m # ms) =
     (case sendMail s m of
        (out, s') \<Rightarrow> (case attempts sendMail s' ms of (outs, s'') \<Rightarrow> (out # outs, s'')))"

fun result_of :: "email_message \<Rightarrow> send_outcome \<Rightarrow> email_result" where
  "result_of msg (Delivered messageId) = success_result msg messageId"
| "result_of msg (Refused errorMsg) = failure_result msg errorMsg"

text \<open>A transporter that also keeps the list of the mails it was asked to send, in order.\<close>

definition logged :: "'s transporter \<Rightarrow> ('s \<times> mail list) transporter" where
  "logged sendMail st m =
     (case sendMail (fst st) m of (out, s') \<Rightarrow> (out, (s', snd st @ [m])))"


definition deliver_all :: "unit transporter" where
  "deliver_all s m = (Delivered (''<id-'' @ mail_to m @ ''>''), s)"

text \<open>Refuses the first mail it is given and delivers every later one.\<close>

definition refuse_first :: "nat transporter" where
  "refuse_first n m = (if n = 0 then Refused ''550 mailbox unavailable'' else Delivered ''<id>'', Suc n)"

definition sample_message :: "string \<Rightarrow> email_message" where
  "sample_message a =
     \<lparr> msg_to = a, msg_toName = None, msg_subject = ''Hello'', msg_textBody = ''Hi'',
       msg_customId = None, msg_attachments = None \<rparr>"


section \<open>cli/index.ts: \<open>sendPendingQueue\<close>\<close>

text \<open>
  A JSON collection file as the code sees it: absent (\<open>existsSync\<close> is false), unreadable
  (\<open>readFile\<close> or \<open>JSON.parse\<close> throws), holding a value that is not an array, or holding
  an array of entries.
\<close>

datatype 'a json_file = Absent | Unreadable | NotArray | Entries "'a list"

text \<open>
  \<open>DraftEntry\<close> (core/types). The code reads \<open>contact\<close>, its members, \<open>subject\<close> and
  \<open>body\<close> defensively, so they are optional here; \<open>status\<close> is whatever string the file
  holds.
\<close>

record contact =
  contact_name :: "string option"
  contact_title :: "string option"
  contact_email :: "string option"

record draft_entry =
  draft_id :: string
  draft_contact :: "contact option"
  draft_company_name :: string
  draft_company_domain :: string
  draft_subject :: "string option"
  draft_body :: "string option"
  draft_notes :: "string option"
  draft_status :: string
  draft_sentAt :: "string option"
  draft_messageId :: "string option"
  draft_error :: "string option"

text \<open>\<open>d.status === "draft"\<close>.\<close>

definition is_pending :: "draft_entry \<Rightarrow> bool" where
  "is_pending d = (draft_status d = ''draft'')"

text \<open>\<open>draft.contact?.email\<close> and \<open>draft.contact.name\<close>.\<close>

definition email_of :: "draft_entry \<Rightarrow> string option" where
  "email_of d = (case draft_contact d of None \<Rightarrow> None | Some c \<Rightarrow> contact_email c)"

definition name_of :: "draft_entry \<Rightarrow> string option" where
  "name_of d = (case draft_contact d of None \<Rightarrow> None | Some c \<Rightarrow> contact_name c)"

text \<open>The negation of \<open>!draft.contact?.email || !draft.subject || !draft.body\<close>.\<close>

definition has_required_fields :: "draft_entry \<Rightarrow> bool" where
  "has_required_fields d = (truthy (email_of d) \<and> truthy (draft_subject d) \<and> truthy (draft_body d))"

text \<open>\<open>runDir.split("/").pop()\<close>: the text after the last slash.\<close>

definition last_segment :: "string \<Rightarrow> string" where
  "last_segment p = rev (takeWhile (\<lambda>c. c \<noteq> CHR ''/'') (rev p))"

text \<open>What surrounds one run of \<open>sendPendingQueue\<close>.\<close>

record send_env =
  runDir :: string
  resumePath :: string
  hasResume :: bool
  skipConfirm :: bool
  confirmed :: "bool option"
  gmail_user :: "string option"
  gmail_pass :: "string option"
  timestamp :: string
  write_ok :: bool

text \<open>
  \<open>confirmed\<close> is the answer to \<open>clack.confirm\<close>: \<open>None\<close> when the prompt was cancelled.
  \<open>timestamp\<close> is \<open>new Date().toISOString()\<close>; \<open>write_ok\<close> tells whether \<open>writeFile\<close> on
  \<open>drafts.json\<close> succeeds.
\<close>

definition to_message :: "send_env \<Rightarrow> draft_entry \<Rightarrow> email_message" where
  "to_message env draft =
     \<lparr> msg_to = the (email_of draft),
       msg_toName = name_of draft,
       msg_subject = the (draft_subject draft),
       msg_textBody = the (draft_body draft),
       msg_customId = Some (last_segment (runDir env) @ ''_'' @ draft_id draft),
       msg_attachments = (if hasResume env then Some [(''resume.pdf'', resumePath env)] else None) \<rparr>"

text \<open>
  The loop over \<open>pendingDrafts\<close> that fills \<open>messages\<close> and \<open>skipped\<close> (draft id and reason).
  Its \<open>try\<close> block guards string operations that do not throw on entries of this type.
\<close>

fun build_messages :: "send_env \<Rightarrow> draft_entry list \<Rightarrow> email_message list \<times> (string \<times> string) list" where
  "build_messages env [] = ([], [])"
| "build_messages env (draft # rest) =
     (case build_messages env rest of
        (messages, skipped) \<Rightarrow>
          if \<not> has_required_fields draft
          then (messages, (draft_id draft, ''Missing required fields'') # skipped)
          else (to_message env draft # messages, skipped))"

text \<open>\<open>Array.prototype.findIndex\<close>, with \<open>None\<close> for \<open>-1\<close>.\<close>

fun findIndex :: "('a \<Rightarrow> bool) \<Rightarrow> 'a list \<Rightarrow> nat option" where
  "findIndex P [] = None"
| "findIndex P (x # xs) = (if P x then Some 0 else map_option Suc (findIndex P xs))"

text \<open>
  The callback of \<open>drafts.map\<close> that writes the send results back. \<open>results[pendingIndex]\<close>
  beyond the end of \<open>results\<close> is \<open>undefined\<close>, and reading \<open>success\<close> from it throws a
  \<open>TypeError\<close>.
\<close>

definition update_draft ::
  "draft_entry list \<Rightarrow> email_result list \<Rightarrow> string \<Rightarrow> draft_entry \<Rightarrow> error + draft_entry" where
  "update_draft pendingDrafts results ts draft =
     (case findIndex (\<lambda>pd. draft_id pd = draft_id draft) pendingDrafts of
        None \<Rightarrow> Inr draft
      | Some pendingIndex \<Rightarrow>
          if \<not> pendingIndex < length results
          then Inl (Error ''Cannot read properties of undefined (reading 'success')'')
          else
            (let result = results ! pendingIndex in
             if res_success result
             then Inr (draft\<lparr> draft_status := ''sent'', draft_sentAt := Some ts,
                              draft_messageId := res_messageId result \<rparr>)
             else Inr (draft\<lparr> draft_status := ''failed'',
                              draft_error := Some (or_str (res_error result) ''Unknown error'') \<rparr>)))"

text \<open>The progress callback \<open>sendPendingQueue\<close> passes only prints a line.\<close>

definition print_progress :: progress where
  "print_progress = Some (\<lambda>result index total_count. None)"

text \<open>
  \<open>sendPendingQueue\<close>. The result is what the call does (\<open>Inr ()\<close> when it returns, \<open>Inl\<close>
  when it throws), the content of \<open>drafts.json\<close> afterwards and the state of the
  transporter afterwards.
\<close>

definition sendPendingQueue ::
  "send_env \<Rightarrow> 's transporter \<Rightarrow> draft_entry json_file \<Rightarrow> 's
     \<Rightarrow> (error + unit) \<times> draft_entry json_file \<times> 's" where
  "sendPendingQueue env sendMail file s =
     (case file of
        Absent \<Rightarrow> (Inr (), file, s)
      | Unreadable \<Rightarrow> (Inl (Error ''drafts.json could not be read or parsed''), file, s)
      | NotArray \<Rightarrow> (Inr (), file, s)
      | Entries drafts \<Rightarrow>
          if length drafts = 0 then (Inr (), file, s)
          else
            (let pendingDrafts = filter is_pending drafts in
             if length pendingDrafts = 0 then (Inr (), file, s)
             else
               (let messages = fst (build_messages env pendingDrafts) in
                if length messages = 0 then (Inr (), file, s)
                else if \<not> skipConfirm env \<and> (confirmed env = None \<or> confirmed env = Some False)
                then (Inr (), file, s)
                else
                  (case sendEmails (gmail_user env) (gmail_pass env) sendMail print_progress messages s of
                     (Inl e, s') \<Rightarrow> (Inl e, file, s')
                   | (Inr results, s') \<Rightarrow>
                       (case map_throwing (update_draft pendingDrafts results (timestamp env)) drafts of
                          Inl e \<Rightarrow> (Inl e, file, s')
                        | Inr updatedDrafts \<Rightarrow>
                            if \<not> write_ok env
                            then (Inl (Error ''drafts.json could not be written''), file, s')
                            else (Inr (), Entries updatedDrafts, s'))))))"

text \<open>
  Reference behaviour for comparison, in the words of the specification: going through
  the entries in file order, an entry that is not a draft stays as it is, and a draft is
  sent and becomes \<open>sent\<close> or \<open>failed\<close> according to the outcome of its own send.
\<close>

definition mark_sent :: "string \<Rightarrow> string \<Rightarrow> draft_entry \<Rightarrow> draft_entry" where
  "mark_sent ts messageId d =
     d\<lparr> draft_status := ''sent'', draft_sentAt := Some ts, draft_messageId := Some messageId \<rparr>"

definition mark_failed :: "string \<Rightarrow> draft_entry \<Rightarrow> draft_entry" where
  "mark_failed errorMsg d =
     d\<lparr> draft_status := ''failed'',
        draft_error := Some (if errorMsg = [] then ''Unknown error'' else errorMsg) \<rparr>"

fun send_each :: "send_env \<Rightarrow> 's transporter \<Rightarrow> draft_entry list \<Rightarrow> 's \<Rightarrow> draft_entry list \<times> 's" where
  "send_each env sendMail [] s = ([], s)"
| "send_each env sendMail (d # ds) s =
     (if \<not> is_pending d
      then (case send_each env sendMail ds s of (ds', s') \<Rightarrow> (d # ds', s'))
      else
        (case sendMail s (mail_of (the (gmail_user env)) (to_message env d)) of
           (Delivered messageId, s1) \<Rightarrow>
             (case send_each env sendMail ds s1 of (ds', s') \<Rightarrow> (mark_sent (timestamp env) messageId d # ds', s'))
         | (Refused errorMsg, s1) \<Rightarrow>
             (case send_each env sendMail ds s1 of (ds', s') \<Rightarrow> (mark_failed errorMsg d # ds', s'))))"

text \<open>
  Whether a run of \<open>sendPendingQueue\<close> that found messages to send gets as far as handing
  them to the transporter: the user confirmed (or \<open>--yes\<close> was given) and the Gmail
  credentials are set.
\<close>

definition reaches_send :: "send_env \<Rightarrow> bool" where
  "reaches_send env =
     ((skipConfirm env \<or> confirmed env = Some True) \<and>
      truthy (gmail_user env) \<and> truthy (gmail_pass env))"

definition entries_of :: "'a json_file \<Rightarrow> 'a list" where
  "entries_of file = (case file of Entries xs \<Rightarrow> xs | _ \<Rightarrow> [])"

text \<open>Sample environment and drafts.\<close>

definition sample_env :: send_env where
  "sample_env =
     \<lparr> runDir = ''/home/me/runs/run0001'', resumePath = ''/home/me/.deepreach/resume/resume.pdf'',
       hasResume = False, skipConfirm = True, confirmed = None,
       gmail_user = Some ''me@gmail.com'', gmail_pass = Some ''app-password'',
       timestamp = ''2026-01-01T00:00:00.000Z'', write_ok = True \<rparr>"

definition sample_draft :: "string \<Rightarrow> string \<Rightarrow> string \<Rightarrow> draft_entry" where
  "sample_draft ident address status =
     \<lparr> draft_id = ident,
       draft_contact = Some \<lparr> contact_name = None, contact_title = None, contact_email = Some address \<rparr>,
       draft_company_name = ''Acme'', draft_company_domain = ''acme.com'',
       draft_subject = Some ''Hello'', draft_body = Some ''Hi'', draft_notes = None,
       draft_status = status, draft_sentAt = None, draft_messageId = None, draft_error = None \<rparr>"


section \<open>agents/orchestrator.ts: the review prompt, \<open>runPipeline\<close> and \<open>gatherPipelineStats\<close>\<close>

text \<open>
  The answer to a \<open>clack\<close> prompt: the cancel symbol (\<open>clack.isCancel\<close>) or a value.
\<close>

datatype 'a answer = Cancelled | Answered 'a

text \<open>The two options of the \<open>select\<close> prompt.\<close>

datatype choice = Approve | Revise

record company_review_item =
  item_name :: string
  item_domain :: string
  item_description :: "string option"
  item_why_good_fit :: "string option"

record review_decision =
  approved :: bool
  feedback :: "string option"

text \<open>
  \<open>promptUserForReview\<close>: \<open>decision\<close> is the answer to the approve/revise selection,
  \<open>feedbackAnswer\<close> the answer to the feedback text input, which is only asked after
  \<open>revise\<close>. The company list is displayed and nothing else.
\<close>

definition promptUserForReview ::
  "company_review_item list \<Rightarrow> choice answer \<Rightarrow> string option answer \<Rightarrow> review_decision" where
  "promptUserForReview companies decision feedbackAnswer =
     (case decision of
        Cancelled \<Rightarrow> \<lparr> approved = True, feedback = None \<rparr>
      | Answered Approve \<Rightarrow> \<lparr> approved = True, feedback = None \<rparr>
      | Answered Revise \<Rightarrow>
          (case feedbackAnswer of
             Cancelled \<Rightarrow> \<lparr> approved = True, feedback = None \<rparr>
           | Answered text \<Rightarrow>
               if \<not> truthy text then \<lparr> approved = True, feedback = None \<rparr>
               else \<lparr> approved = False, feedback = text \<rparr>))"

text \<open>An entry of \<open>decisions\<close> in the value the stream is resumed with.\<close>

datatype hitl_decision = ApproveDecision | RejectDecision "string option"

text \<open>
  One round of the review loop in \<open>consumeStream\<close>: the prompt, the \<open>hitlResponse\<close> sent
  with \<open>new Command({ resume: hitlResponse })\<close>, and the update of
  \<open>lastApprovedCompanies\<close>.
\<close>

definition review_round ::
  "company_review_item list \<Rightarrow> choice answer \<Rightarrow> string option answer \<Rightarrow> company_review_item list option
     \<Rightarrow> hitl_decision list \<times> company_review_item list option" where
  "review_round pendingCompanies decision feedbackAnswer lastApprovedCompanies =
     (let d = promptUserForReview pendingCompanies decision feedbackAnswer;
          hitlResponse = (if approved d then [ApproveDecision] else [RejectDecision (feedback d)])
      in (hitlResponse, if approved d then Some pendingCompanies else lastApprovedCompanies))"

text \<open>
  An entry of \<open>companies.json\<close> is whatever JSON value the file holds at that place.
  \<open>c.status === "SUCCESS"\<close>, the callback of \<open>companies.filter\<close>: reading \<open>status\<close> from a
  \<open>null\<close> entry throws a \<open>TypeError\<close>.
\<close>

definition is_success :: "json \<Rightarrow> error + bool" where
  "is_success c =
     (if c = JNull then Inl (Error ''Cannot read properties of null (reading 'status')'')
      else Inr (field c ''status'' = Some (JStr ''SUCCESS'')))"

text \<open>\<open>xs.filter(p)\<close> for a callback that may throw: the first throw ends the filter.\<close>

fun filter_throwing :: "('a \<Rightarrow> error + bool) \<Rightarrow> 'a list \<Rightarrow> error + 'a list" where
  "filter_throwing p [] = Inr []"
| "filter_throwing p (x # xs) =
     (case p x of
        Inl e \<Rightarrow> Inl e
      | Inr keep \<Rightarrow>
          (case filter_throwing p xs of
             Inl e \<Rightarrow> Inl e
           | Inr ys \<Rightarrow> Inr (if keep then x # ys else ys)))"

record stats =
  companiesCandidates :: nat
  companiesSelected :: nat
  companiesResearched :: nat
  contactsFound :: nat
  contactsVerified :: nat
  draftsGenerated :: nat

definition zero_stats :: stats where
  "zero_stats =
     \<lparr> companiesCandidates = 0, companiesSelected = 0, companiesResearched = 0,
       contactsFound = 0, contactsVerified = 0, draftsGenerated = 0 \<rparr>"

text \<open>
  The two blocks inside the \<open>try\<close> of \<open>gatherPipelineStats\<close>. Each updates the \<open>stats\<close>
  object in place and may throw: the result is the thrown error, if any, and \<open>stats\<close> as it
  stands at that moment. In the first block \<open>companiesSelected\<close> is assigned before the
  filter runs.
\<close>

definition read_companies :: "json json_file \<Rightarrow> stats \<Rightarrow> error option \<times> stats" where
  "read_companies companiesFile st =
     (case companiesFile of
        Absent \<Rightarrow> (None, st)
      | Unreadable \<Rightarrow> (Some (Error ''companies.json could not be read or parsed''), st)
      | NotArray \<Rightarrow> (None, st)
      | Entries companies \<Rightarrow>
          (let st1 = st\<lparr> companiesSelected := length companies \<rparr>
           in case filter_throwing is_success companies of
                Inl e \<Rightarrow> (Some e, st1)
              | Inr researched \<Rightarrow> (None, st1\<lparr> companiesResearched := length researched \<rparr>)))"

text \<open>Of \<open>drafts.json\<close> only the length of the array is read, whatever its entries are.\<close>

definition read_drafts :: "'d json_file \<Rightarrow> stats \<Rightarrow> error option \<times> stats" where
  "read_drafts draftsFile st =
     (case draftsFile of
        Absent \<Rightarrow> (None, st)
      | Unreadable \<Rightarrow> (Some (Error ''drafts.json could not be read or parsed''), st)
      | NotArray \<Rightarrow> (None, st)
      | Entries drafts \<Rightarrow>
          (None, st\<lparr> draftsGenerated := length drafts,
                      contactsFound := length drafts,
                      contactsVerified := length drafts \<rparr>))"

text \<open>
  \<open>gatherPipelineStats\<close>: one \<open>try\<close> around both blocks; the \<open>catch\<close> logs a warning and
  the function returns \<open>stats\<close> as it stands at that moment.
\<close>

definition gatherPipelineStats :: "json json_file \<Rightarrow> 'd json_file \<Rightarrow> stats" where
  "gatherPipelineStats companiesFile draftsFile =
     (case read_companies companiesFile zero_stats of
        (Some e, st) \<Rightarrow> st
      | (None, st1) \<Rightarrow> snd (read_drafts draftsFile st1))"

text \<open>The artifact files of a run.\<close>

record workspace =
  companies_json :: "json json_file"
  drafts_json :: "draft_entry json_file"
  other_files :: "string \<Rightarrow> string option"

text \<open>
  What \<open>runPipeline\<close> sees of the agent inside its \<open>try\<close> block (\<open>agent.stream\<close>,
  \<open>consumeStream\<close> with its review prompts and resumed streams): a sequence of events, each
  arriving after the agent and its subagents have changed files of the workspace, which
  ends normally or with a throw.
\<close>

datatype agent_event = Progress "workspace \<Rightarrow> workspace" | Failure error

fun consume :: "agent_event list \<Rightarrow> workspace \<Rightarrow> error option \<times> workspace" where
  "consume [] w = (None, w)"
| "consume (Progress f # events) w = consume events (f w)"
| "consume (Failure e # events) w = (Some e, w)"

record pipeline_result =
  pr_success :: bool
  pr_runId :: string
  pr_stats :: stats
  pr_error :: "string option"

text \<open>
  \<open>runPipeline\<close>. \<open>created\<close> is the outcome of the call of \<open>createRecruitingOrchestrator\<close>
  that precedes the \<open>try\<close> block: a throw (of \<open>createDeepAgent\<close>, on a model or tool
  configuration it refuses), which leaves \<open>runPipeline\<close> uncaught, or the agent, given by
  the events it produces. The result is \<open>Inl\<close> when \<open>runPipeline\<close> itself throws.
\<close>

definition runPipeline ::
  "string \<Rightarrow> error + agent_event list \<Rightarrow> workspace \<Rightarrow> (error + pipeline_result) \<times> workspace" where
  "runPipeline runId created w =
     (case created of
        Inl e \<Rightarrow> (Inl e, w)
      | Inr events \<Rightarrow>
          (case consume events w of
             (None, w') \<Rightarrow>
               (Inr \<lparr> pr_success = True, pr_runId = runId,
                      pr_stats = gatherPipelineStats (companies_json w') (drafts_json w'),
                      pr_error = None \<rparr>, w')
           | (Some (Error errorMessage), w') \<Rightarrow>
               (Inr \<lparr> pr_success = False, pr_runId = runId, pr_stats = zero_stats,
                      pr_error = Some errorMessage \<rparr>, w')))"

text \<open>The changes an event makes to the workspace before it arrives.\<close>

fun apply_event :: "agent_event \<Rightarrow> workspace \<Rightarrow> workspace" where
  "apply_event (Progress f) w = f w"
| "apply_event (Failure e) w = w"

fun is_progress :: "agent_event \<Rightarrow> bool" where
  "is_progress (Progress f) = True"
| "is_progress (Failure e) = False"

text \<open>Sample workspace, entries and events.\<close>

definition sample_company :: "string \<Rightarrow> string \<Rightarrow> json" where
  "sample_company address status =
     JObj [(''name'', JStr ''Acme''), (''domain'', JStr address), (''selected'', JBool True),
           (''status'', JStr status)]"

definition empty_workspace :: workspace where
  "empty_workspace = \<lparr> companies_json = Absent, drafts_json = Absent, other_files = (\<lambda>p. None) \<rparr>"

definition write_companies :: "json list \<Rightarrow> agent_event" where
  "write_companies companies = Progress (\<lambda>w. w\<lparr> companies_json := Entries companies \<rparr>)"


section \<open>Properties of \<open>people_lookup\<close>\<close>


lemma slice0_take: "1 \<le> L \<Longrightarrow> slice0 L xs = take (nat \<lfloor>L\<rfloor>) xs"
  by (simp add: slice0_def to_integer_def Let_def)



lemma who_printable:
  "printable (js_or (js_or org (map_option JStr d)) (map_option JStr c)) = printable org"
  by (cases d; cases c) (auto simp add: js_or_def printable_def)

lemma map_toPerson_ok:
  "(\<And>x. x \<in> set xs \<Longrightarrow> entry_ok x) \<Longrightarrow> map_throwing toPerson xs = Inr (map person_of xs)"
  by (induction xs) (auto simp add: toPerson_def entry_ok_def)


lemma people_of_array:
  "1 \<le> L \<Longrightarrow> (\<And>x. x \<in> set (take (nat \<lfloor>L\<rfloor>) es) \<Longrightarrow> entry_ok x) \<Longrightarrow>
     people_of L (JArr es) = Inr (map person_of (take (nat \<lfloor>L\<rfloor>) es))"
  by (simp add: people_of_def slice0_take map_toPerson_ok)

lemma people_lookup_run:
  assumes "parse_arg domainArg = Inr domain" and "parse_arg companyArg = Inr company"
    and "truthy domain \<or> truthy company" and "truthy apiKey"
    and "fetch (the apiKey) ''domain-search'' (requestParams limit domain company) = Inr resp"
    and "resp_ok resp" and "resp_json resp = Inr data"
    and "people_of limit (emails_of data) = Inr people"
    and "printable (organization_of data)"
  shows "people_lookup limit apiKey fetch domainArg companyArg =
     (if people = []
      then Inr \<lparr> lr_success = False,
                 lr_error = Some ''NO_CONTACTS_FOUND'',
                 lr_message = Some (no_contacts_message
                   (js_or (js_or (organization_of data) (map_option JStr domain)) (map_option JStr company))),
                 lr_company = js_or (js_or (organization_of data) (map_option JStr company)) (Some (JStr ''Unknown'')),
                 lr_domain = js_or (js_or (map_option JStr domain) (domain_of data)) (Some (JStr ''Unknown'')),
                 lr_people = [],
                 lr_total = 0 \<rparr>
      else Inr \<lparr> lr_success = True,
                 lr_error = None,
                 lr_message = None,
                 lr_company = organization_of data,
                 lr_domain = js_or (map_option JStr domain) (domain_of data),
                 lr_people = people,
                 lr_total = length people \<rparr>)"
  using assms
  by (auto simp add: people_lookup_def people_lookup_handler_def hunterGet_def getHunterKey_def Let_def
      who_printable)

text \<open>
  Claim C8 as stated makes the limit applied to the returned list equal to
  \<open>min (max n 1) 100\<close>. The configuration accepts numbers that are not integers. For 2.5 the
  backend is asked for \<open>limit = 2.5\<close> (this backend answers no other request) and two of
  its three contacts are returned.
\<close>

theorem fractional_limit_counterexample:
  "buildTools (Some (5 / 2)) (Some ''key'')
      (limit_backend (5 / 2) [sample_email ''a@acme.com'', sample_email ''b@acme.com'', sample_email ''c@acme.com''])
      (Some (JStr ''acme.com'')) None =
     Inr \<lparr> lr_success = True, lr_error = None, lr_message = None,
           lr_company = Some (JStr ''Acme''), lr_domain = Some (JStr ''acme.com''),
           lr_people = [person_of (sample_email ''a@acme.com''), person_of (sample_email ''b@acme.com'')],
           lr_total = 2 \<rparr> \<and>
   min (max (5 / 2) 1) 100 = (5 / 2 :: real)"
  by (simp add: buildTools_def createHunterDomainSearchTool_def people_lookup_def parse_arg_def
      people_lookup_handler_def hunterGet_def getHunterKey_def truthy_def hunter_limit_def
      requestParams_def limit_backend_def hunter_body_def emails_of_def organization_of_def domain_of_def
      opt_field_def people_of_def slice0_def to_integer_def toPerson_def printable_def sample_email_def
      js_or_def Let_def)

text \<open>
  Claim C8, amended. For every configured contacts-per-company value \<open>n\<close> (any finite
  number), the limit requested from the backend is \<open>min (max n 1) 100\<close>, and 10 when
  nothing is configured; the returned people are the first entries of the answer up to
  the integer part of that limit, which is the limit itself when \<open>n\<close> is an integer.
\<close>

theorem people_lookup_limit:
  assumes "parse_arg domainArg = Inr domain" and "parse_arg companyArg = Inr company"
    and "truthy domain \<or> truthy company" and "truthy apiKey"
    and "L = (case contactsPerCompany of None \<Rightarrow> 10 | Some n \<Rightarrow> min (max n 1) 100)"
    and "fetch (the apiKey) ''domain-search''
           \<lparr> rp_domain = domain, rp_company = company, rp_limit = L, rp_department = ''it'' \<rparr> = Inr resp"
    and "resp_ok resp" and "resp_json resp = Inr data"
    and "emails_of data = JArr es" and "\<forall>x \<in> set (take (nat \<lfloor>L\<rfloor>) es). entry_ok x"
    and "printable (organization_of data)"
  shows "\<exists>r. buildTools contactsPerCompany apiKey fetch domainArg companyArg = Inr r \<and>
             lr_people r = map person_of (take (nat \<lfloor>L\<rfloor>) es) \<and>
             length (lr_people r) = min (length es) (nat \<lfloor>L\<rfloor>) \<and>
             (L \<in> \<int> \<longrightarrow> real (length (lr_people r)) = min (real (length es)) L)"
proof -
  have L1: "1 \<le> L" and L100: "L \<le> 100"
    using assms(5) by (auto split: option.splits)
  have tool: "buildTools contactsPerCompany = people_lookup L"
    using assms(5)
    by (simp add: buildTools_def createHunterDomainSearchTool_def hunter_limit_def split: option.splits)
  have req: "fetch (the apiKey) ''domain-search'' (requestParams L domain company) = Inr resp"
    using assms(6) by (simp add: requestParams_def)
  have people: "people_of L (emails_of data) = Inr (map person_of (take (nat \<lfloor>L\<rfloor>) es))"
    using assms(9,10) L1 by (simp add: people_of_array)
  note run = people_lookup_run [where fetch = fetch and limit = L,
      OF assms(1,2,3,4) req assms(7,8) people assms(11)]
  have int_case: "real (min (length es) (nat \<lfloor>L\<rfloor>)) = min (real (length es)) L" if "L \<in> \<int>"
  proof -
    from that obtain k where k: "L = of_int k" by (auto elim: Ints_cases)
    with L1 have "1 \<le> k" by simp
    then have "real (nat k) = L" using k by simp
    moreover have "\<lfloor>L\<rfloor> = k" using k by simp
    ultimately show ?thesis by (simp add: of_nat_min)
  qed
  show ?thesis
    unfolding tool run
    using int_case by (auto simp add: min_def)
qed

theorem people_lookup_limit_witness:
  "\<exists>r. buildTools (Some 0) (Some ''key'')
          (limit_backend 1 [sample_email ''a@acme.com'', sample_email ''b@acme.com''])
          (Some (JStr ''acme.com'')) None = Inr r \<and>
       lr_people r = [person_of (sample_email ''a@acme.com'')]"
proof -
  let ?es = "[sample_email ''a@acme.com'', sample_email ''b@acme.com'']"
  have a1: "parse_arg (Some (JStr ''acme.com'')) = Inr (Some ''acme.com'')" and a2: "parse_arg None = Inr None"
    by (simp_all add: parse_arg_def)
  have a3: "truthy (Some ''acme.com'') \<or> truthy None" and a4: "truthy (Some ''key'')"
    by (simp_all add: truthy_def)
  have a5: "(1::real) = (case Some (0::real) of None \<Rightarrow> 10 | Some n \<Rightarrow> min (max n 1) 100)"
    by simp
  have a6: "limit_backend 1 ?es (the (Some ''key'')) ''domain-search''
           \<lparr> rp_domain = Some ''acme.com'', rp_company = None, rp_limit = 1, rp_department = ''it'' \<rparr> =
           Inr \<lparr> resp_ok = True, resp_status = ''200'', resp_error = [], resp_json = Inr (hunter_body ?es) \<rparr>"
    by (simp add: limit_backend_def)
  have a9: "emails_of (hunter_body ?es) = JArr ?es"
    by (simp add: emails_of_def hunter_body_def opt_field_def)
  have a10: "\<forall>x \<in> set (take (nat \<lfloor>1::real\<rfloor>) ?es). entry_ok x"
    by (simp add: sample_email_def entry_ok_def printable_def)
  have a11: "printable (organization_of (hunter_body ?es))"
    by (simp add: organization_of_def hunter_body_def opt_field_def printable_def)
  have a7: "resp_ok \<lparr> resp_ok = True, resp_status = ''200'', resp_error = [], resp_json = Inr (hunter_body ?es) \<rparr>"
    and a8: "resp_json \<lparr> resp_ok = True, resp_status = ''200'', resp_error = [], resp_json = Inr (hunter_body ?es) \<rparr>
               = Inr (hunter_body ?es)"
    by simp_all
  from people_lookup_limit [where fetch = "limit_backend 1 ?es", OF a1 a2 a3 a4 a5 a6 a7 a8 a9 a10 a11]
  show ?thesis by auto
qed




text \<open>
  Two more throws the amended claim C7 lists, evaluated: a \<open>null\<close> argument, refused
  by the schema, and a body whose \<open>emails\<close> member is a number.
\<close>

lemma null_argument_refused:
  "createHunterDomainSearchTool (Some 5) (Some ''key'') (fixed_backend []) None (Some JNull) =
     Inl (Error ''Received tool input did not match expected schema'')"
  by (simp add: createHunterDomainSearchTool_def people_lookup_def parse_arg_def)

lemma malformed_body_throws:
  "createHunterDomainSearchTool (Some 5) (Some ''key'')
      (\<lambda>key path params. Inr \<lparr> resp_ok = True, resp_status = ''200'', resp_error = [],
          resp_json = Inr (JObj [(''data'', JObj [(''emails'', JNum ''5'')])]) \<rparr>)
      (Some (JStr ''acme.com'')) None =
     Inl (Error ''emails.slice is not a function'')"
  by (simp add: createHunterDomainSearchTool_def people_lookup_def parse_arg_def people_lookup_handler_def
      hunterGet_def getHunterKey_def truthy_def emails_of_def opt_field_def people_of_def Let_def)

section \<open>Properties of \<open>sendEmails\<close>\<close>

lemma attempts_length: "length (fst (attempts sendMail s ms)) = length ms"
proof (induction ms arbitrary: s)
  case Nil
  show ?case by simp
next
  case (Cons m ms)
  obtain out s' where step: "sendMail s m = (out, s')" by (cases "sendMail s m")
  obtain outs s'' where tl: "attempts sendMail s' ms = (outs, s'')"
    by (cases "attempts sendMail s' ms")
  from Cons.IH [of s'] tl have "length outs = length ms" by simp
  with step tl show ?case by simp
qed

lemma send_loop_quiet:
  assumes quiet: "\<And>r i t. call_progress onProgress r i t = None"
  shows "send_loop user sendMail onProgress total_count msgs results s =
           (Inr (results @ map2 result_of msgs (fst (attempts sendMail s (map (mail_of user) msgs)))),
            snd (attempts sendMail s (map (mail_of user) msgs)))"
proof (induction msgs arbitrary: results s)
  case Nil
  show ?case by simp
next
  case (Cons msg rest)
  obtain out s' where step: "sendMail s (mail_of user msg) = (out, s')"
    by (cases "sendMail s (mail_of user msg)")
  obtain outs s'' where tl: "attempts sendMail s' (map (mail_of user) rest) = (outs, s'')"
    by (cases "attempts sendMail s' (map (mail_of user) rest)")
  show ?case
  proof (cases out)
    case (Delivered messageId)
    with step tl Cons.IH [of "results @ [success_result msg messageId]" s'] show ?thesis
      by (simp add: quiet Let_def)
  next
    case (Refused errorMsg)
    with step tl Cons.IH [of "results @ [failure_result msg errorMsg]" s'] show ?thesis
      by (simp add: quiet Let_def)
  qed
qed

lemma attempts_logged:
  "attempts (logged sendMail) (s, seen) ms =
     (fst (attempts sendMail s ms), (snd (attempts sendMail s ms), seen @ ms))"
proof (induction ms arbitrary: s seen)
  case Nil
  show ?case by simp
next
  case (Cons m ms)
  obtain out s' where step: "sendMail s m = (out, s')" by (cases "sendMail s m")
  show ?case
    using Cons.IH [of s' "seen @ [m]"] step
    by (simp add: logged_def split: prod.splits)
qed

lemma sendEmails_quiet:
  assumes quiet: "\<And>r i t. call_progress onProgress r i t = None"
    and creds: "messages = [] \<or> (truthy user \<and> truthy pass)"
  shows "sendEmails user pass sendMail onProgress messages s =
           (Inr (map2 result_of messages (fst (attempts sendMail s (map (mail_of (the user)) messages)))),
            snd (attempts sendMail s (map (mail_of (the user)) messages)))"
proof (cases "messages = []")
  case True
  then show ?thesis by (simp add: sendEmails_def)
next
  case False
  with creds have "truthy user" "truthy pass" by auto
  with False show ?thesis
    by (simp add: sendEmails_def getGmailConfig_def send_loop_quiet [OF quiet])
qed

text \<open>
  Claim C9 as stated promises one result per message for every input list. With the Gmail
  credentials missing from the environment, \<open>sendEmails\<close> throws on a non-empty list
  before any message is attempted.
\<close>

theorem sendEmails_missing_credentials_counterexample:
  "sendEmails None None (logged deliver_all) None [sample_message ''a@acme.com''] ((), []) =
     (Inl (Error ''Missing Gmail credentials: GMAIL_USER and GMAIL_APP_PASSWORD required''), ((), []))"
  by (simp add: sendEmails_def getGmailConfig_def truthy_def)

text \<open>
  Claim C9, amended. When the Gmail credentials are set (or the list is empty) and the
  progress callback, if there is one, does not throw, \<open>sendEmails\<close> hands the messages to the
  transporter strictly one at a time in input order, whatever the outcomes of the earlier
  ones, and returns exactly one result per input message in the same order: for a
  delivered message \<open>success: true\<close> with its message id and address, for a refused one
  \<open>success: false\<close> with its address and the error text.
\<close>

theorem sendEmails_one_result_per_message:
  assumes quiet: "\<And>r i t. call_progress onProgress r i t = None"
    and creds: "messages = [] \<or> (truthy user \<and> truthy pass)"
  shows "\<exists>results s'.
           sendEmails user pass (logged sendMail) onProgress messages (s, []) =
             (Inr results, (s', map (mail_of (the user)) messages)) \<and>
           s' = snd (attempts sendMail s (map (mail_of (the user)) messages)) \<and>
           length results = length messages \<and>
           results = map2 result_of messages (fst (attempts sendMail s (map (mail_of (the user)) messages))) \<and>
           (\<forall>i < length messages.
              res_email (results ! i) = msg_to (messages ! i) \<and>
              ((res_success (results ! i) \<and> res_messageId (results ! i) \<noteq> None \<and> res_error (results ! i) = None) \<or>
               (\<not> res_success (results ! i) \<and> res_messageId (results ! i) = None \<and> res_error (results ! i) \<noteq> None)))"
proof -
  let ?mails = "map (mail_of (the user)) messages"
  let ?outs = "fst (attempts sendMail s ?mails)"
  let ?results = "map2 result_of messages ?outs"
  have len_outs: "length ?outs = length messages"
    by (simp add: attempts_length)
  have run: "sendEmails user pass (logged sendMail) onProgress messages (s, []) =
               (Inr ?results, (snd (attempts sendMail s ?mails), ?mails))"
    by (simp add: sendEmails_quiet [OF quiet creds] attempts_logged)
  have shape: "res_email (?results ! i) = msg_to (messages ! i) \<and>
              ((res_success (?results ! i) \<and> res_messageId (?results ! i) \<noteq> None \<and> res_error (?results ! i) = None) \<or>
               (\<not> res_success (?results ! i) \<and> res_messageId (?results ! i) = None \<and> res_error (?results ! i) \<noteq> None))"
    if "i < length messages" for i
  proof -
    have nth: "?results ! i = result_of (messages ! i) (?outs ! i)"
      using that len_outs by simp
    show ?thesis
      unfolding nth
      by (cases "?outs ! i") (simp_all add: success_result_def failure_result_def)
  qed
  have "length ?results = length messages"
    using len_outs by simp
  with run shape show ?thesis by blast
qed

theorem sendEmails_one_result_per_message_witness:
  "sendEmails (Some ''me@gmail.com'') (Some ''app-password'') (logged refuse_first) None
       [sample_message ''a@acme.com'', sample_message ''b@acme.com''] (0, []) =
     (Inr [failure_result (sample_message ''a@acme.com'') ''550 mailbox unavailable'',
           success_result (sample_message ''b@acme.com'') ''<id>''],
      (2, [mail_of ''me@gmail.com'' (sample_message ''a@acme.com''),
           mail_of ''me@gmail.com'' (sample_message ''b@acme.com'')]))"
proof -
  have quiet: "\<And>r i t. call_progress None r i t = None"
    by (simp add: call_progress_def)
  have creds: "[sample_message ''a@acme.com'', sample_message ''b@acme.com''] = [] \<or>
      (truthy (Some ''me@gmail.com'') \<and> truthy (Some ''app-password''))"
    by (simp add: truthy_def)
  from sendEmails_one_result_per_message [OF quiet creds, of refuse_first 0]
  show ?thesis
    by (auto simp add: refuse_first_def)
qed

section \<open>Properties of \<open>sendPendingQueue\<close>\<close>

lemma findIndex_none: "(\<And>x. x \<in> set xs \<Longrightarrow> \<not> P x) \<Longrightarrow> findIndex P xs = None"
  by (induction xs) auto

lemma findIndex_first: "(\<And>x. x \<in> set pre \<Longrightarrow> \<not> P x) \<Longrightarrow> P y \<Longrightarrow> findIndex P (pre @ y # rest) = Some (length pre)"
  by (induction pre) auto

lemma build_messages_fst:
  "fst (build_messages env ps) = map (to_message env) (filter has_required_fields ps)"
  by (induction ps) (auto split: prod.splits)

lemma send_each_no_pending:
  "(\<And>d. d \<in> set ds \<Longrightarrow> \<not> is_pending d) \<Longrightarrow> send_each env sendMail ds s = (ds, s)"
  by (induction ds) auto

lemma update_draft_not_listed:
  assumes "\<And>pd. pd \<in> set pendingDrafts \<Longrightarrow> draft_id pd \<noteq> draft_id d"
  shows "update_draft pendingDrafts results ts d = Inr d"
proof -
  have "findIndex (\<lambda>pd. draft_id pd = draft_id d) pendingDrafts = None"
    using assms by (intro findIndex_none) auto
  then show ?thesis by (simp add: update_draft_def)
qed

lemma update_draft_listed:
  assumes fresh: "\<And>pd. pd \<in> set pre \<Longrightarrow> draft_id pd \<noteq> draft_id d"
    and len: "length rpre = length pre"
  shows "update_draft (pre @ d # rest) (rpre @ result_of msg out # rrest) ts d =
           Inr (case out of Delivered messageId \<Rightarrow> mark_sent ts messageId d
                          | Refused errorMsg \<Rightarrow> mark_failed errorMsg d)"
proof -
  have idx: "findIndex (\<lambda>pd. draft_id pd = draft_id d) (pre @ d # rest) = Some (length pre)"
    using fresh by (intro findIndex_first) auto
  have nth: "(rpre @ result_of msg out # rrest) ! length pre = result_of msg out"
    using len by (simp add: nth_append)
  show ?thesis
    unfolding update_draft_def idx
    using len nth
    by (cases out)
       (simp_all add: Let_def success_result_def failure_result_def mark_sent_def mark_failed_def or_str_def)
qed

lemma write_back_is_send_each:
  assumes "distinct (map draft_id pre @ map draft_id ds)"
    and "length rpre = length pre"
  shows "map_throwing
           (update_draft (pre @ filter is_pending ds)
              (rpre @ map2 result_of (map (to_message env) (filter is_pending ds))
                        (fst (attempts sendMail s
                               (map (mail_of (the (gmail_user env))) (map (to_message env) (filter is_pending ds))))))
              (timestamp env)) ds
         = Inr (fst (send_each env sendMail ds s)) \<and>
         snd (attempts sendMail s
                (map (mail_of (the (gmail_user env))) (map (to_message env) (filter is_pending ds))))
         = snd (send_each env sendMail ds s)"
  using assms
proof (induction ds arbitrary: pre rpre s)
  case Nil
  show ?case by simp
next
  case (Cons d ds)
  show ?case
  proof (cases "is_pending d")
    case False
    have notin: "draft_id d \<notin> draft_id ` set pre" "draft_id d \<notin> draft_id ` set ds"
      using Cons.prems(1) by auto
    have fresh: "\<And>pd. pd \<in> set (pre @ filter is_pending ds) \<Longrightarrow> draft_id pd \<noteq> draft_id d"
      using notin by (auto simp add: image_iff)
    have upd: "update_draft (pre @ filter is_pending ds) results (timestamp env) d = Inr d" for results
      using fresh by (rule update_draft_not_listed)
    have dist: "distinct (map draft_id pre @ map draft_id ds)"
      using Cons.prems(1) by auto
    obtain ds' s' where rest: "send_each env sendMail ds s = (ds', s')"
      by (cases "send_each env sendMail ds s")
    from Cons.IH [OF dist Cons.prems(2), of s] rest False upd show ?thesis
      by simp
  next
    case True
    let ?m = "mail_of (the (gmail_user env)) (to_message env d)"
    obtain out s1 where step: "sendMail s ?m = (out, s1)"
      by (cases "sendMail s ?m")
    obtain outs s2 where tl: "attempts sendMail s1
        (map (mail_of (the (gmail_user env))) (map (to_message env) (filter is_pending ds))) = (outs, s2)"
      by (cases "attempts sendMail s1
        (map (mail_of (the (gmail_user env))) (map (to_message env) (filter is_pending ds)))")
    obtain ds' s' where rest: "send_each env sendMail ds s1 = (ds', s')"
      by (cases "send_each env sendMail ds s1")
    have notin: "draft_id d \<notin> draft_id ` set pre"
      using Cons.prems(1) by auto
    have fresh: "\<And>pd. pd \<in> set pre \<Longrightarrow> draft_id pd \<noteq> draft_id d"
      using notin by (auto simp add: image_iff)
    have dist: "distinct (map draft_id (pre @ [d]) @ map draft_id ds)"
      using Cons.prems(1) by auto
    have len: "length (rpre @ [result_of (to_message env d) out]) = length (pre @ [d])"
      using Cons.prems(2) by simp
    have upd: "update_draft (pre @ d # filter is_pending ds)
                 (rpre @ result_of (to_message env d) out # map2 result_of (map (to_message env) (filter is_pending ds)) outs)
                 (timestamp env) d =
               Inr (case out of Delivered messageId \<Rightarrow> mark_sent (timestamp env) messageId d
                              | Refused errorMsg \<Rightarrow> mark_failed errorMsg d)"
      using fresh Cons.prems(2) by (rule update_draft_listed)
    from Cons.IH [OF dist len, of s1] tl rest
    have ih: "map_throwing
           (update_draft (pre @ d # filter is_pending ds)
              (rpre @ result_of (to_message env d) out # map2 result_of (map (to_message env) (filter is_pending ds)) outs)
              (timestamp env)) ds = Inr ds'" and st: "s2 = s'"
      by simp_all
    show ?thesis
      using True step tl rest upd ih st
      by (cases out) simp_all
  qed
qed


lemma send_each_length: "length (fst (send_each env sendMail ds s)) = length ds"
proof (induction ds arbitrary: s)
  case Nil
  show ?case by simp
next
  case (Cons d ds)
  show ?case
  proof (cases "is_pending d")
    case False
    with Cons.IH [of s] show ?thesis by (auto split: prod.splits)
  next
    case True
    obtain out s1 where step: "sendMail s (mail_of (the (gmail_user env)) (to_message env d)) = (out, s1)"
      by (cases "sendMail s (mail_of (the (gmail_user env)) (to_message env d))")
    with True Cons.IH [of s1] show ?thesis
      by (cases out) (auto split: prod.splits)
  qed
qed

lemma send_each_nth:
  "i < length ds \<Longrightarrow>
     (\<not> is_pending (ds ! i) \<longrightarrow> fst (send_each env sendMail ds s) ! i = ds ! i) \<and>
     (is_pending (ds ! i) \<longrightarrow>
        (\<exists>messageId. fst (send_each env sendMail ds s) ! i = mark_sent (timestamp env) messageId (ds ! i)) \<or>
        (\<exists>errorMsg. fst (send_each env sendMail ds s) ! i = mark_failed errorMsg (ds ! i)))"
proof (induction ds arbitrary: s i)
  case Nil
  then show ?case by simp
next
  case (Cons d ds)
  obtain out s1 where step: "sendMail s (mail_of (the (gmail_user env)) (to_message env d)) = (out, s1)"
    by (cases "sendMail s (mail_of (the (gmail_user env)) (to_message env d))")
  show ?case
  proof (cases i)
    case 0
    show ?thesis
    proof (cases "is_pending d")
      case False
      with 0 show ?thesis by (auto split: prod.splits)
    next
      case True
      with 0 step show ?thesis
        by (cases out) (auto split: prod.splits)
    qed
  next
    case (Suc j)
    with Cons.prems have j: "j < length ds" by simp
    show ?thesis
    proof (cases "is_pending d")
      case False
      with Suc Cons.IH [OF j, of s] show ?thesis by (auto split: prod.splits)
    next
      case True
      with Suc step Cons.IH [OF j, of s1] show ?thesis
        by (cases out) (auto split: prod.splits)
    qed
  qed
qed

lemma print_progress_quiet: "call_progress print_progress r i t = None"
  by (simp add: call_progress_def print_progress_def)

lemma sendPendingQueue_send_each:
  assumes ids: "distinct (map draft_id drafts)"
    and fields: "\<And>d. d \<in> set drafts \<Longrightarrow> is_pending d \<Longrightarrow> has_required_fields d"
    and go: "reaches_send env" and wr: "write_ok env"
  shows "sendPendingQueue env sendMail (Entries drafts) s =
           (Inr (), Entries (fst (send_each env sendMail drafts s)), snd (send_each env sendMail drafts s))"
proof (cases "filter is_pending drafts = []")
  case True
  then have none: "\<And>d. d \<in> set drafts \<Longrightarrow> \<not> is_pending d"
    by (simp add: filter_empty_conv)
  have "send_each env sendMail drafts s = (drafts, s)"
    using none by (rule send_each_no_pending)
  with True show ?thesis by (simp add: sendPendingQueue_def)
next
  case False
  let ?pend = "filter is_pending drafts"
  let ?msgs = "map (to_message env) ?pend"
  let ?mails = "map (mail_of (the (gmail_user env))) ?msgs"
  have valid: "filter has_required_fields ?pend = ?pend"
    unfolding filter_id_conv using fields by auto
  have msgs: "fst (build_messages env ?pend) = ?msgs"
    by (simp only: build_messages_fst valid)
  have nonempty: "drafts \<noteq> []" "?msgs \<noteq> []"
    using False by auto
  have confirm: "\<not> (\<not> skipConfirm env \<and> (confirmed env = None \<or> confirmed env = Some False))"
    using go by (auto simp add: reaches_send_def)
  have creds: "?msgs = [] \<or> (truthy (gmail_user env) \<and> truthy (gmail_pass env))"
    using go by (simp add: reaches_send_def)
  have sent: "sendEmails (gmail_user env) (gmail_pass env) sendMail print_progress ?msgs s =
                (Inr (map2 result_of ?msgs (fst (attempts sendMail s ?mails))), snd (attempts sendMail s ?mails))"
    using print_progress_quiet creds by (rule sendEmails_quiet)
  have "distinct (map draft_id [] @ map draft_id drafts)" and "length ([]::email_result list) = length ([]::draft_entry list)"
    using ids by simp_all
  from write_back_is_send_each [OF this, of env sendMail s]
  have wb: "map_throwing (update_draft ?pend (map2 result_of ?msgs (fst (attempts sendMail s ?mails))) (timestamp env)) drafts
                = Inr (fst (send_each env sendMail drafts s))"
    and st: "snd (attempts sendMail s ?mails) = snd (send_each env sendMail drafts s)"
    by simp_all
  show ?thesis
    using nonempty False confirm wr
    by (auto simp add: sendPendingQueue_def Let_def msgs sent wb st simp del: filter_filter map_map)
qed





text \<open>
  Claim C4 as stated lets every draft follow the result of its own send. The results are
  written back by looking an entry up by its \<open>id\<close>: of two drafts with the same \<open>id\<close>, the
  second gets the result of the first. Here the first mail is refused and the second is
  delivered, and both entries end as \<open>failed\<close>.
\<close>

theorem own_result_counterexample:
  "sendPendingQueue sample_env refuse_first
      (Entries [sample_draft ''acme_ada'' ''ada.a@acme.com'' ''draft'',
                sample_draft ''acme_ada'' ''ada.b@acme.com'' ''draft'']) 0 =
     (Inr (),
      Entries [mark_failed ''550 mailbox unavailable'' (sample_draft ''acme_ada'' ''ada.a@acme.com'' ''draft''),
               mark_failed ''550 mailbox unavailable'' (sample_draft ''acme_ada'' ''ada.b@acme.com'' ''draft'')],
      2) \<and>
   refuse_first 1 (mail_of ''me@gmail.com'' (to_message sample_env (sample_draft ''acme_ada'' ''ada.b@acme.com'' ''draft''))) =
     (Delivered ''<id>'', 2)"
  by (simp add: sendPendingQueue_def sendEmails_def getGmailConfig_def sample_env_def sample_draft_def
      is_pending_def has_required_fields_def email_of_def name_of_def truthy_def to_message_def
      print_progress_def call_progress_def refuse_first_def mail_of_def failure_result_def success_result_def
      update_draft_def mark_failed_def or_str_def Let_def)

text \<open>
  Claim C4, amended. Provided the entries of \<open>drafts.json\<close> have pairwise distinct ids and
  every draft-status entry has a contact email, a subject and a body, a send phase that
  runs to its end (the user confirms, the credentials are set, the file can be written)
  leaves every entry that was not a draft unchanged and moves every draft, once, according
  to the outcome of its own send: to \<open>sent\<close> with \<open>sentAt\<close> and the message id when the mail
  was delivered, to \<open>failed\<close> with the error text (\<open>Unknown error\<close> when that text is empty)
  when it was refused. No entry is a draft afterwards.
\<close>

theorem send_phase_transitions:
  assumes ids: "distinct (map draft_id drafts)"
    and fields: "\<forall>d \<in> set drafts. draft_status d = ''draft'' \<longrightarrow> has_required_fields d"
    and go: "reaches_send env" and wr: "write_ok env"
  shows "\<exists>drafts' s'.
           sendPendingQueue env sendMail (Entries drafts) s = (Inr (), Entries drafts', s') \<and>
           (drafts', s') = send_each env sendMail drafts s \<and>
           length drafts' = length drafts \<and>
           (\<forall>i < length drafts.
              (draft_status (drafts ! i) \<noteq> ''draft'' \<longrightarrow> drafts' ! i = drafts ! i) \<and>
              (draft_status (drafts ! i) = ''draft'' \<longrightarrow>
                 (\<exists>messageId. drafts' ! i = mark_sent (timestamp env) messageId (drafts ! i)) \<or>
                 (\<exists>errorMsg. drafts' ! i = mark_failed errorMsg (drafts ! i))) \<and>
              draft_status (drafts' ! i) \<noteq> ''draft'')"
proof -
  have valid: "\<And>d. d \<in> set drafts \<Longrightarrow> is_pending d \<Longrightarrow> has_required_fields d"
    using fields by (simp add: is_pending_def)
  have run: "sendPendingQueue env sendMail (Entries drafts) s =
           (Inr (), Entries (fst (send_each env sendMail drafts s)), snd (send_each env sendMail drafts s))"
    using ids valid go wr by (rule sendPendingQueue_send_each)
  have len: "length (fst (send_each env sendMail drafts s)) = length drafts"
    by (rule send_each_length)
  have each: "\<forall>i < length drafts.
              (draft_status (drafts ! i) \<noteq> ''draft'' \<longrightarrow> fst (send_each env sendMail drafts s) ! i = drafts ! i) \<and>
              (draft_status (drafts ! i) = ''draft'' \<longrightarrow>
                 (\<exists>messageId. fst (send_each env sendMail drafts s) ! i = mark_sent (timestamp env) messageId (drafts ! i)) \<or>
                 (\<exists>errorMsg. fst (send_each env sendMail drafts s) ! i = mark_failed errorMsg (drafts ! i)))"
    using send_each_nth [of _ drafts env sendMail s] by (simp add: is_pending_def)
  have final: "\<forall>i < length drafts. draft_status (fst (send_each env sendMail drafts s) ! i) \<noteq> ''draft''"
  proof (intro allI impI)
    fix i assume i: "i < length drafts"
    show "draft_status (fst (send_each env sendMail drafts s) ! i) \<noteq> ''draft''"
    proof (cases "draft_status (drafts ! i) = ''draft''")
      case True
      with each i show ?thesis
        by (auto simp add: mark_sent_def mark_failed_def)
    next
      case False
      with each i show ?thesis by auto
    qed
  qed
  from run len each final show ?thesis
    by (intro exI [of _ "fst (send_each env sendMail drafts s)"] exI [of _ "snd (send_each env sendMail drafts s)"]) simp
qed

theorem send_phase_transitions_witness:
  "sendPendingQueue sample_env refuse_first
      (Entries [sample_draft ''acme_ada'' ''ada@acme.com'' ''sent'',
                sample_draft ''acme_bob'' ''bob@acme.com'' ''draft'',
                sample_draft ''acme_cy'' ''cy@acme.com'' ''draft'']) 0 =
     (Inr (),
      Entries [sample_draft ''acme_ada'' ''ada@acme.com'' ''sent'',
               mark_failed ''550 mailbox unavailable'' (sample_draft ''acme_bob'' ''bob@acme.com'' ''draft''),
               mark_sent ''2026-01-01T00:00:00.000Z'' ''<id>'' (sample_draft ''acme_cy'' ''cy@acme.com'' ''draft'')],
      2)"
proof -
  let ?drafts = "[sample_draft ''acme_ada'' ''ada@acme.com'' ''sent'',
                sample_draft ''acme_bob'' ''bob@acme.com'' ''draft'',
                sample_draft ''acme_cy'' ''cy@acme.com'' ''draft'']"
  have ids: "distinct (map draft_id ?drafts)"
    by (simp add: sample_draft_def)
  have fields: "\<forall>d \<in> set ?drafts. draft_status d = ''draft'' \<longrightarrow> has_required_fields d"
    by (simp add: sample_draft_def has_required_fields_def email_of_def truthy_def)
  have go: "reaches_send sample_env" and wr: "write_ok sample_env"
    by (simp_all add: reaches_send_def sample_env_def truthy_def)
  have spec: "send_each sample_env refuse_first ?drafts 0 =
     ([sample_draft ''acme_ada'' ''ada@acme.com'' ''sent'',
               mark_failed ''550 mailbox unavailable'' (sample_draft ''acme_bob'' ''bob@acme.com'' ''draft''),
               mark_sent ''2026-01-01T00:00:00.000Z'' ''<id>'' (sample_draft ''acme_cy'' ''cy@acme.com'' ''draft'')], 2)"
    by (simp add: is_pending_def sample_draft_def refuse_first_def sample_env_def mark_failed_def mark_sent_def)
  from send_phase_transitions [OF ids fields go wr, of refuse_first 0]
  obtain drafts' s' where
    run: "sendPendingQueue sample_env refuse_first (Entries ?drafts) 0 = (Inr (), Entries drafts', s')" and
    eq: "(drafts', s') = send_each sample_env refuse_first ?drafts 0"
    by blast
  from eq have "(drafts', s') =
     ([sample_draft ''acme_ada'' ''ada@acme.com'' ''sent'',
               mark_failed ''550 mailbox unavailable'' (sample_draft ''acme_bob'' ''bob@acme.com'' ''draft''),
               mark_sent ''2026-01-01T00:00:00.000Z'' ''<id>'' (sample_draft ''acme_cy'' ''cy@acme.com'' ''draft'')], 2)"
    by (simp only: spec)
  with run show ?thesis by simp
qed

text \<open>
  Outside the amended claim C4: a draft that is skipped for a missing field makes
  \<open>results\<close> shorter than \<open>pendingDrafts\<close>, while the write-back indexes \<open>results\<close> with
  positions in \<open>pendingDrafts\<close>. Here the second draft is mailed and delivered, the
  write-back throws when it reaches it, and \<open>drafts.json\<close> keeps both entries as drafts.
\<close>

lemma skipped_draft_write_back_throws:
  "sendPendingQueue sample_env (logged deliver_all)
      (Entries [(sample_draft ''acme_ada'' ''ada@acme.com'' ''draft'')\<lparr> draft_subject := None \<rparr>,
                sample_draft ''acme_bob'' ''bob@acme.com'' ''draft'']) ((), []) =
     (Inl (Error ''Cannot read properties of undefined (reading 'success')''),
      Entries [(sample_draft ''acme_ada'' ''ada@acme.com'' ''draft'')\<lparr> draft_subject := None \<rparr>,
               sample_draft ''acme_bob'' ''bob@acme.com'' ''draft''],
      ((), [mail_of ''me@gmail.com'' (to_message sample_env (sample_draft ''acme_bob'' ''bob@acme.com'' ''draft''))]))"
  by (simp add: sendPendingQueue_def sendEmails_def getGmailConfig_def sample_env_def sample_draft_def
      is_pending_def has_required_fields_def email_of_def name_of_def truthy_def to_message_def
      print_progress_def call_progress_def logged_def deliver_all_def mail_of_def failure_result_def
      success_result_def update_draft_def Let_def)


section \<open>Properties of the review prompt, \<open>runPipeline\<close> and \<open>gatherPipelineStats\<close>\<close>

text \<open>
  Claim C5. When the human cancels the review prompt without an explicit choice, at the
  approve/revise selection or at the feedback text input, the decision is
  \<open>{ approved: true }\<close>: the stream is resumed with an approve decision and the list that
  was presented is recorded as the approved one.
\<close>

theorem cancelled_review_is_approval:
  assumes "decision = Cancelled \<or> (decision = Answered Revise \<and> feedbackAnswer = Cancelled)"
  shows "promptUserForReview companies decision feedbackAnswer = \<lparr> approved = True, feedback = None \<rparr> \<and>
         review_round companies decision feedbackAnswer lastApprovedCompanies =
           ([ApproveDecision], Some companies)"
  using assms by (auto simp add: promptUserForReview_def review_round_def Let_def)

theorem cancelled_review_is_approval_witness:
  "review_round [\<lparr> item_name = ''Acme'', item_domain = ''acme.com'', item_description = None,
                   item_why_good_fit = None \<rparr>] (Answered Revise) Cancelled None =
     ([ApproveDecision], Some [\<lparr> item_name = ''Acme'', item_domain = ''acme.com'', item_description = None,
                                item_why_good_fit = None \<rparr>])"
proof -
  have "Answered Revise = Cancelled \<or> (Answered Revise = Answered Revise \<and> (Cancelled :: string option answer) = Cancelled)"
    by simp
  from cancelled_review_is_approval [OF this] show ?thesis by blast
qed

lemma consume_workspace:
  "snd (consume events w) = fold apply_event (takeWhile is_progress events) w"
  by (induction events w rule: consume.induct) simp_all

text \<open>
  Claim C6 as stated has \<open>runPipeline\<close> catch every error thrown while the pipeline
  runs. The orchestrator agent is created before the \<open>try\<close> block, after the start of the
  execution has been logged; when that creation throws, \<open>runPipeline\<close> throws too and
  returns no result.
\<close>

theorem agent_creation_throw_counterexample:
  "runPipeline ''run0001'' (Inl (Error ''Unsupported model configuration'')) empty_workspace =
     (Inl (Error ''Unsupported model configuration''), empty_workspace)"
  by (simp add: runPipeline_def)

text \<open>
  Claim C6, amended. Whatever error is thrown inside the \<open>try\<close> block of \<open>runPipeline\<close>,
  that is once the agent has been created, while its stream is started and consumed,
  reviews and resumes included, \<open>runPipeline\<close> catches it and returns \<open>success: false\<close>
  with the error message and all-zero statistics; the workspace is left exactly as the
  events before the throw made it: nothing is deleted or changed. An error thrown by the
  creation of the agent is not caught: \<open>runPipeline\<close> throws it on, with the workspace
  untouched.
\<close>

theorem runPipeline_failure_keeps_artifacts:
  "(created = Inr events \<and> consume events w = (Some (Error errorMessage), w') \<longrightarrow>
      runPipeline runId created w =
        (Inr \<lparr> pr_success = False, pr_runId = runId,
               pr_stats = \<lparr> companiesCandidates = 0, companiesSelected = 0, companiesResearched = 0,
                            contactsFound = 0, contactsVerified = 0, draftsGenerated = 0 \<rparr>,
               pr_error = Some errorMessage \<rparr>,
         w') \<and>
      w' = fold apply_event (takeWhile is_progress events) w) \<and>
   (created = Inl e \<longrightarrow> runPipeline runId created w = (Inl e, w))"
proof -
  have "w' = fold apply_event (takeWhile is_progress events) w"
    if "consume events w = (Some (Error errorMessage), w')"
    using consume_workspace [of events w] that by simp
  then show ?thesis
    by (auto simp add: runPipeline_def zero_stats_def)
qed

theorem runPipeline_failure_keeps_artifacts_witness:
  "runPipeline ''run0001''
      (Inr [write_companies [sample_company ''acme.com'' ''PENDING''],
            Failure (Error ''Recursion limit of 200 reached''),
            write_companies []])
      empty_workspace =
     (Inr \<lparr> pr_success = False, pr_runId = ''run0001'',
            pr_stats = \<lparr> companiesCandidates = 0, companiesSelected = 0, companiesResearched = 0,
                         contactsFound = 0, contactsVerified = 0, draftsGenerated = 0 \<rparr>,
            pr_error = Some ''Recursion limit of 200 reached'' \<rparr>,
      empty_workspace\<lparr> companies_json := Entries [sample_company ''acme.com'' ''PENDING''] \<rparr>)"
proof -
  let ?events = "[write_companies [sample_company ''acme.com'' ''PENDING''],
       Failure (Error ''Recursion limit of 200 reached''),
       write_companies []]"
  have run: "consume ?events empty_workspace =
     (Some (Error ''Recursion limit of 200 reached''),
      empty_workspace\<lparr> companies_json := Entries [sample_company ''acme.com'' ''PENDING''] \<rparr>)"
    by (simp add: write_companies_def)
  from runPipeline_failure_keeps_artifacts [of "Inr ?events" ?events empty_workspace
      "''Recursion limit of 200 reached''"
      "empty_workspace\<lparr> companies_json := Entries [sample_company ''acme.com'' ''PENDING''] \<rparr>"
      "''run0001''"] run
  show ?thesis by simp
qed

lemma filter_is_success:
  "JNull \<notin> set cs \<Longrightarrow>
     filter_throwing is_success cs = Inr (filter (\<lambda>c. field c ''status'' = Some (JStr ''SUCCESS'')) cs)"
  by (induction cs) (auto simp add: is_success_def)

text \<open>
  Claim C10 as stated makes the draft statistics equal the number of entries of
  \<open>drafts.json\<close>. When \<open>companies.json\<close> exists and cannot be parsed, the read error ends the
  gathering before \<open>drafts.json\<close> is looked at, and the draft statistics stay zero.
\<close>

theorem draft_stats_counterexample:
  "draftsGenerated (gatherPipelineStats Unreadable (Entries [sample_draft ''acme_ada'' ''ada@acme.com'' ''draft''])) = 0 \<and>
   length [sample_draft ''acme_ada'' ''ada@acme.com'' ''draft''] = 1"
  by (simp add: gatherPipelineStats_def read_companies_def zero_stats_def)

text \<open>
  Claim C10, amended. Provided no entry of \<open>companies.json\<close> is \<open>null\<close>, the statistics of a
  successful run are computed from the artifact files as they are at the end, not
  accumulated in memory: \<open>companiesSelected\<close> is the number of entries of \<open>companies.json\<close>
  and \<open>companiesResearched\<close> the number of those with status \<open>SUCCESS\<close> (zero when the file
  is absent, unreadable or not an array); \<open>draftsGenerated\<close>, \<open>contactsFound\<close> and
  \<open>contactsVerified\<close> each are the number of entries of \<open>drafts.json\<close> (zero when that file
  is absent, unreadable or not an array), except that they are zero too when
  \<open>companies.json\<close> exists and is unreadable.
\<close>

theorem stats_from_artifacts:
  assumes "JNull \<notin> set (entries_of companiesFile)"
  shows "gatherPipelineStats companiesFile draftsFile =
     \<lparr> companiesCandidates = 0,
       companiesSelected = length (entries_of companiesFile),
       companiesResearched =
         length (filter (\<lambda>c. field c ''status'' = Some (JStr ''SUCCESS'')) (entries_of companiesFile)),
       contactsFound = (if companiesFile = Unreadable then 0 else length (entries_of draftsFile)),
       contactsVerified = (if companiesFile = Unreadable then 0 else length (entries_of draftsFile)),
       draftsGenerated = (if companiesFile = Unreadable then 0 else length (entries_of draftsFile)) \<rparr> \<and>
   (created = Inr events \<and> consume events w = (None, w') \<longrightarrow>
      runPipeline runId created w =
        (Inr \<lparr> pr_success = True, pr_runId = runId,
               pr_stats = gatherPipelineStats (companies_json w') (drafts_json w'),
               pr_error = None \<rparr>, w'))"
proof -
  have "gatherPipelineStats companiesFile draftsFile =
     \<lparr> companiesCandidates = 0,
       companiesSelected = length (entries_of companiesFile),
       companiesResearched =
         length (filter (\<lambda>c. field c ''status'' = Some (JStr ''SUCCESS'')) (entries_of companiesFile)),
       contactsFound = (if companiesFile = Unreadable then 0 else length (entries_of draftsFile)),
       contactsVerified = (if companiesFile = Unreadable then 0 else length (entries_of draftsFile)),
       draftsGenerated = (if companiesFile = Unreadable then 0 else length (entries_of draftsFile)) \<rparr>"
    using assms
    by (cases companiesFile; cases draftsFile)
       (simp_all add: gatherPipelineStats_def read_companies_def read_drafts_def zero_stats_def
          entries_of_def filter_is_success Let_def)
  then show ?thesis
    by (auto simp add: runPipeline_def)
qed

theorem stats_from_artifacts_witness:
  "runPipeline ''run0001''
      (Inr [write_companies [sample_company ''acme.com'' ''SUCCESS'', sample_company ''beta.io'' ''FAILED'']])
      empty_workspace =
     (Inr \<lparr> pr_success = True, pr_runId = ''run0001'',
            pr_stats = \<lparr> companiesCandidates = 0, companiesSelected = 2, companiesResearched = 1,
                         contactsFound = 0, contactsVerified = 0, draftsGenerated = 0 \<rparr>,
            pr_error = None \<rparr>,
      empty_workspace\<lparr> companies_json :=
        Entries [sample_company ''acme.com'' ''SUCCESS'', sample_company ''beta.io'' ''FAILED''] \<rparr>)"
proof -
  let ?cs = "[sample_company ''acme.com'' ''SUCCESS'', sample_company ''beta.io'' ''FAILED'']"
  let ?w = "empty_workspace\<lparr> companies_json := Entries ?cs \<rparr>"
  have run: "consume [write_companies ?cs] empty_workspace = (None, ?w)"
    by (simp add: write_companies_def)
  have nonull: "JNull \<notin> set (entries_of (Entries ?cs))"
    by (simp add: entries_of_def sample_company_def)
  from stats_from_artifacts [OF nonull, of "Absent :: draft_entry json_file" "Inr [write_companies ?cs]"
      "[write_companies ?cs]" empty_workspace ?w "''run0001''"] run
  show ?thesis
    by (simp add: entries_of_def sample_company_def empty_workspace_def)
qed

text \<open>
  Outside the amended claim C10: a \<open>null\<close> entry in \<open>companies.json\<close> makes the filter throw
  after \<open>companiesSelected\<close> was assigned, and \<open>drafts.json\<close> is not read.
\<close>

lemma null_company_entry_stats:
  "gatherPipelineStats (Entries [JNull]) (Entries [sample_draft ''acme_ada'' ''ada@acme.com'' ''draft'']) =
     \<lparr> companiesCandidates = 0, companiesSelected = 1, companiesResearched = 0,
       contactsFound = 0, contactsVerified = 0, draftsGenerated = 0 \<rparr>"
  by (simp add: gatherPipelineStats_def read_companies_def is_success_def zero_stats_def Let_def)

end
